theory Spec2Isabelle
  imports Main
begin

section \<open>Vocabulary\<close>

text \<open>
  The rules of \<^verbatim>\<open>threatmodel/threatlib/__init__.py\<close> import their vocabulary from the
  modules \<^verbatim>\<open>model\<close>, \<^verbatim>\<open>risk\<close> and \<^verbatim>\<open>threat\<close>, whose files are not part of the
  sources at hand. The enumerations below list the members that the sources and the
  specification name.
\<close>

text \<open>
  Modelled from the spec: the enumeration \<^verbatim>\<open>Controls\<close> of the absent module
  \<^verbatim>\<open>model\<close>, with the controls that section 3 of the specification lists: input
  sanitizing, input validation, input bounds checks, parameterization and the
  deactivation of server side includes.
\<close>

datatype Controls =
  INPUT_SANITIZING
| INPUT_VALIDATION
| INPUT_BOUNDS_CHECKS
| PARAMETERIZATION
| SERVER_SIDE_INCLUDES_DEACTIVATION

text \<open>
  Modelled from the spec: \<^verbatim>\<open>Technology\<close> (WEB_SERVICE_REST, DATABASE, FILE_SERVER,
  LOCAL_FILE_SYSTEM; all four are also named by the sources), \<^verbatim>\<open>Protocol\<close>
  (HTTPS, SQL, a generic NoSQL variant) and \<^verbatim>\<open>Authentication\<close> (NONE, SESSION_ID).
\<close>

datatype Technology = WEB_SERVICE_REST | DATABASE | FILE_SERVER | LOCAL_FILE_SYSTEM

datatype Protocol = HTTPS | SQL | NOSQL

datatype Authentication = NONE | SESSION_ID

text \<open>
  Modelled from the spec: the ordinals \<^verbatim>\<open>Impact\<close> (LOW ... VERY_HIGH) and
  \<^verbatim>\<open>Likelihood\<close> (UNLIKELY ... VERY_LIKELY) of the absent module \<^verbatim>\<open>risk\<close>.
\<close>

datatype Impact = LOW | MEDIUM | HIGH | VERY_HIGH

datatype Likelihood = UNLIKELY | LIKELY | VERY_LIKELY

text \<open>The exception a rule can raise: a name that its class does not have.\<close>

datatype error = AttributeError string

section \<open>Entity graph\<close>

text \<open>
  Modelled from the spec: the attributes that every component kind shares
  (\<^verbatim>\<open>TechnicalComponent\<close>): its technology, its set of declared controls, and the
  two predicates that the rules read.
\<close>

record TechnicalComponent =
  component_name :: string
  technology :: Technology
  controls :: "Controls set"
  environment_variables :: bool
  web_application :: bool

text \<open>The concrete component classes; \<^verbatim>\<open>isinstance\<close> tests the constructor.\<close>

datatype Component =
  Actor TechnicalComponent
| Process TechnicalComponent
| DataStore TechnicalComponent
| ExternalEntity TechnicalComponent

fun attributes :: "Component \<Rightarrow> TechnicalComponent" where
  "attributes (Actor c) = c"
| "attributes (Process c) = c"
| "attributes (DataStore c) = c"
| "attributes (ExternalEntity c) = c"

text \<open>
  Modelled from the spec: a data flow holds references to its source and destination
  components, a protocol, an authentication mode and an encryption flag.
\<close>

record DataFlow =
  flow_name :: string
  source :: nat
  destination :: nat
  protocol :: Protocol
  authentication :: Authentication
  encrypted :: bool

text \<open>
  Python passes objects by reference, and a rule could write to the object it is given.
  The objects therefore live in a store, and an \<open>Element\<close> is a reference into it.
\<close>

datatype Element = ComponentRef nat | DataFlowRef nat

record Store =
  components :: "nat \<Rightarrow> Component"
  data_flows :: "nat \<Rightarrow> DataFlow"

text \<open>The runtime class of the object behind a reference.\<close>

datatype Kind = ActorK | ProcessK | DataStoreK | ExternalEntityK | DataFlowK

fun component_kind :: "Component \<Rightarrow> Kind" where
  "component_kind (Actor c) = ActorK"
| "component_kind (Process c) = ProcessK"
| "component_kind (DataStore c) = DataStoreK"
| "component_kind (ExternalEntity c) = ExternalEntityK"

fun kind_of :: "Store \<Rightarrow> Element \<Rightarrow> Kind" where
  "kind_of s (ComponentRef a) = component_kind (components s a)"
| "kind_of s (DataFlowRef a) = DataFlowK"

text \<open>\<^verbatim>\<open>isinstance(target, Process)\<close> and \<^verbatim>\<open>isinstance(target, DataFlow)\<close>, giving the
  object when the test succeeds.\<close>

fun as_Process :: "Store \<Rightarrow> Element \<Rightarrow> TechnicalComponent option" where
  "as_Process s (ComponentRef a) =
     (case components s a of Process p \<Rightarrow> Some p | _ \<Rightarrow> None)"
| "as_Process s (DataFlowRef a) = None"

fun as_DataFlow :: "Store \<Rightarrow> Element \<Rightarrow> DataFlow option" where
  "as_DataFlow s (ComponentRef a) = None"
| "as_DataFlow s (DataFlowRef a) = Some (data_flows s a)"

text \<open>Modelled from the spec: the methods of the absent module \<^verbatim>\<open>model\<close> that the
  rules call. Each reads the object and returns a boolean.\<close>

definition has_control :: "TechnicalComponent \<Rightarrow> Controls \<Rightarrow> bool" where
  "has_control c x = (x \<in> controls c)"

definition is_web_application :: "TechnicalComponent \<Rightarrow> bool" where
  "is_web_application c = web_application c"

definition is_relational_database_protocol :: "DataFlow \<Rightarrow> bool" where
  "is_relational_database_protocol f = (protocol f = SQL)"

definition is_nosql_database_protocol :: "DataFlow \<Rightarrow> bool" where
  "is_nosql_database_protocol f = (protocol f = NOSQL)"

definition is_encrypted :: "DataFlow \<Rightarrow> bool" where
  "is_encrypted f = encrypted f"

section \<open>Expressions that can raise\<close>

text \<open>
  \<^verbatim>\<open>Controls.X\<close> looks the name \<open>X\<close> up among the members of the enumeration and
  raises \<^verbatim>\<open>AttributeError\<close> when there is none of that name. The declaration of
  the enumeration is absent; the names of its members are those under which the rules
  read them: \<^verbatim>\<open>INPUT_SANITIZING\<close>, \<^verbatim>\<open>INPUT_VALIDATION\<close>, \<^verbatim>\<open>INPUT_BOUNDS_CHECKS\<close>,
  \<^verbatim>\<open>SERVER_SIDE_INCLUDES_DEACTIVATION\<close> and, in CAPEC-66, \<^verbatim>\<open>Parameterization\<close> for
  the parameterization control.
\<close>

definition Controls_members :: "(string \<times> Controls) list" where
  "Controls_members =
     [(''INPUT_SANITIZING'', INPUT_SANITIZING),
      (''INPUT_VALIDATION'', INPUT_VALIDATION),
      (''INPUT_BOUNDS_CHECKS'', INPUT_BOUNDS_CHECKS),
      (''Parameterization'', PARAMETERIZATION),
      (''SERVER_SIDE_INCLUDES_DEACTIVATION'', SERVER_SIDE_INCLUDES_DEACTIVATION)]"

definition Controls_getattr :: "string \<Rightarrow> error + Controls" where
  "Controls_getattr n =
     (case map_of Controls_members n of
        None \<Rightarrow> Inl (AttributeError n)
      | Some x \<Rightarrow> Inr x)"

definition py_bind :: "error + 'a \<Rightarrow> ('a \<Rightarrow> error + 'b) \<Rightarrow> error + 'b" where
  "py_bind m k = (case m of Inl e \<Rightarrow> Inl e | Inr x \<Rightarrow> k x)"

text \<open>\<^verbatim>\<open>c.has_control(Controls.X)\<close>: the argument is evaluated, then the method is called.\<close>

definition call_has_control :: "TechnicalComponent \<Rightarrow> string \<Rightarrow> error + bool" where
  "call_has_control c n = py_bind (Controls_getattr n) (\<lambda>x. Inr (has_control c x))"

text \<open>\<^verbatim>\<open>not e\<close>, and \<^verbatim>\<open>e is False\<close> for a boolean \<open>e\<close>.\<close>

definition py_not :: "error + bool \<Rightarrow> error + bool" where
  "py_not a = py_bind a (\<lambda>x. Inr (\<not> x))"

text \<open>\<^verbatim>\<open>a and b\<close>, \<^verbatim>\<open>a or b\<close>: the right operand is evaluated only when the left one
  does not decide the result.\<close>

definition py_and :: "error + bool \<Rightarrow> error + bool \<Rightarrow> error + bool" where
  "py_and a b = py_bind a (\<lambda>x. if x then b else Inr False)"

definition py_or :: "error + bool \<Rightarrow> error + bool \<Rightarrow> error + bool" where
  "py_or a b = py_bind a (\<lambda>x. if x then Inr True else b)"

section \<open>Rules\<close>

datatype Threat =
  CAPEC_10 | CAPEC_66 | CAPEC_100 | CAPEC_101 | CAPEC_102 | CAPEC_126 | CAPEC_676

text \<open>The first and third argument that each rule's constructor passes on.\<close>

fun threat_id :: "Threat \<Rightarrow> string" where
  "threat_id CAPEC_10 = ''CAPEC-10''"
| "threat_id CAPEC_66 = ''CAPEC-66''"
| "threat_id CAPEC_100 = ''CAPEC-100''"
| "threat_id CAPEC_101 = ''CAPEC-101''"
| "threat_id CAPEC_102 = ''CAPEC-102''"
| "threat_id CAPEC_126 = ''CAPEC-126''"
| "threat_id CAPEC_676 = ''CAPEC-676''"

fun target_types :: "Threat \<Rightarrow> Kind list" where
  "target_types CAPEC_10 = [ProcessK]"
| "target_types CAPEC_66 = [DataFlowK]"
| "target_types CAPEC_100 = [ProcessK]"
| "target_types CAPEC_101 = [ProcessK]"
| "target_types CAPEC_102 = [DataFlowK]"
| "target_types CAPEC_126 = [ProcessK]"
| "target_types CAPEC_676 = [DataFlowK]"

text \<open>\<^verbatim>\<open>Risk(target, threat, impact, likelihood)\<close>.\<close>

record Risk =
  target :: Element
  threat :: Threat
  impact :: Impact
  likelihood :: Likelihood

text \<open>A rule that finds its condition met returns the risk, otherwise \<^verbatim>\<open>None\<close>.\<close>

definition risk_if :: "error + bool \<Rightarrow> Risk \<Rightarrow> error + Risk option" where
  "risk_if cond r = py_bind cond (\<lambda>b. Inr (if b then Some r else None))"

text \<open>
  Each \<^verbatim>\<open>apply\<close> takes the reference and the store and returns its result together
  with the store it leaves behind.
\<close>

definition CAPEC_10_apply :: "Element \<Rightarrow> Store \<Rightarrow> (error + Risk option) \<times> Store" where
  "CAPEC_10_apply t s =
     (case as_Process s t of
        None \<Rightarrow> (Inr None, s)
      | Some p \<Rightarrow>
          (risk_if
             (py_and (Inr (environment_variables p))
               (py_and (py_not (call_has_control p ''INPUT_SANITIZING''))
                       (py_not (call_has_control p ''INPUT_BOUNDS_CHECKS''))))
             \<lparr>target = t, threat = CAPEC_10, impact = HIGH, likelihood = VERY_LIKELY\<rparr>,
           s))"

definition CAPEC_66_apply :: "Element \<Rightarrow> Store \<Rightarrow> (error + Risk option) \<times> Store" where
  "CAPEC_66_apply t s =
     (case as_DataFlow s t of
        None \<Rightarrow> (Inr None, s)
      | Some f \<Rightarrow>
          if \<not> is_relational_database_protocol f then (Inr None, s)
          else
            (let src = attributes (components s (source f)) in
             (risk_if
                (py_and (py_not (call_has_control src ''INPUT_SANITIZING''))
                  (py_and (py_not (call_has_control src ''INPUT_VALIDATION''))
                          (py_not (call_has_control src ''Parameterization''))))
                \<lparr>target = ComponentRef (source f), threat = CAPEC_66,
                 impact = HIGH, likelihood = LIKELY\<rparr>,
              s)))"

definition CAPEC_100_apply :: "Element \<Rightarrow> Store \<Rightarrow> (error + Risk option) \<times> Store" where
  "CAPEC_100_apply t s =
     (case as_Process s t of
        None \<Rightarrow> (Inr None, s)
      | Some p \<Rightarrow>
          (risk_if (py_not (call_has_control p ''INPUT_BOUNDS_CHECKS''))
             \<lparr>target = t, threat = CAPEC_100, impact = VERY_HIGH, likelihood = VERY_LIKELY\<rparr>,
           s))"

definition CAPEC_101_apply :: "Element \<Rightarrow> Store \<Rightarrow> (error + Risk option) \<times> Store" where
  "CAPEC_101_apply t s =
     (case as_Process s t of
        None \<Rightarrow> (Inr None, s)
      | Some p \<Rightarrow>
          (py_bind
             (py_or (call_has_control p ''SERVER_SIDE_INCLUDES_DEACTIVATION'')
                    (call_has_control p ''INPUT_SANITIZING''))
             (\<lambda>mitigated.
                if mitigated then Inr None
                else risk_if (Inr (is_web_application p))
                       \<lparr>target = t, threat = CAPEC_101, impact = HIGH, likelihood = LIKELY\<rparr>),
           s))"

definition CAPEC_102_apply :: "Element \<Rightarrow> Store \<Rightarrow> (error + Risk option) \<times> Store" where
  "CAPEC_102_apply t s =
     (case as_DataFlow s t of
        None \<Rightarrow> (Inr None, s)
      | Some f \<Rightarrow>
          (risk_if
             (py_and (py_not (Inr (is_encrypted f)))
                     (Inr (authentication f = SESSION_ID)))
             \<lparr>target = t, threat = CAPEC_102, impact = HIGH, likelihood = LIKELY\<rparr>,
           s))"

definition CAPEC_126_apply :: "Element \<Rightarrow> Store \<Rightarrow> (error + Risk option) \<times> Store" where
  "CAPEC_126_apply t s =
     (case as_Process s t of
        None \<Rightarrow> (Inr None, s)
      | Some p \<Rightarrow>
          if \<not> technology p \<in> set [FILE_SERVER, LOCAL_FILE_SYSTEM] then (Inr None, s)
          else
            (risk_if
               (py_and (py_not (call_has_control p ''INPUT_SANITIZING''))
                       (py_not (call_has_control p ''INPUT_VALIDATION'')))
               \<lparr>target = t, threat = CAPEC_126, impact = MEDIUM, likelihood = VERY_LIKELY\<rparr>,
             s))"

definition CAPEC_676_apply :: "Element \<Rightarrow> Store \<Rightarrow> (error + Risk option) \<times> Store" where
  "CAPEC_676_apply t s =
     (case as_DataFlow s t of
        None \<Rightarrow> (Inr None, s)
      | Some f \<Rightarrow>
          if \<not> is_nosql_database_protocol f then (Inr None, s)
          else
            (let src = attributes (components s (source f)) in
             (risk_if
                (py_and (py_not (call_has_control src ''INPUT_SANITIZING''))
                        (py_not (call_has_control src ''INPUT_VALIDATION'')))
                \<lparr>target = ComponentRef (source f), threat = CAPEC_676,
                 impact = HIGH, likelihood = LIKELY\<rparr>,
              s)))"

text \<open>Method dispatch: \<^verbatim>\<open>threat.apply(target)\<close>.\<close>

fun Threat_apply :: "Threat \<Rightarrow> Element \<Rightarrow> Store \<Rightarrow> (error + Risk option) \<times> Store" where
  "Threat_apply CAPEC_10 = CAPEC_10_apply"
| "Threat_apply CAPEC_66 = CAPEC_66_apply"
| "Threat_apply CAPEC_100 = CAPEC_100_apply"
| "Threat_apply CAPEC_101 = CAPEC_101_apply"
| "Threat_apply CAPEC_102 = CAPEC_102_apply"
| "Threat_apply CAPEC_126 = CAPEC_126_apply"
| "Threat_apply CAPEC_676 = CAPEC_676_apply"

definition DEFAULT_THREATLIB :: "Threat list" where
  "DEFAULT_THREATLIB =
     [CAPEC_10, CAPEC_66, CAPEC_100, CAPEC_101, CAPEC_102, CAPEC_126, CAPEC_676]"

text \<open>
  Modelled from the spec: \<^verbatim>\<open>is_eligible\<close> of the absent base class \<^verbatim>\<open>Threat\<close>
  holds when the target's runtime kind is one of the rule's declared kinds.
\<close>

definition is_eligible :: "Threat \<Rightarrow> Store \<Rightarrow> Element \<Rightarrow> bool" where
  "is_eligible r s t = (kind_of s t \<in> set (target_types r))"

section \<open>Evaluation\<close>

text \<open>
  Modelled from the spec: the model and its \<^verbatim>\<open>evaluate\<close> belong to the absent module
  \<^verbatim>\<open>model\<close>. Section 4.4 of the specification gives the algorithm: for every rule of
  the library, for every element and data flow of the model that the rule is eligible
  for, \<^verbatim>\<open>apply\<close> is invoked and a risk that it returns is appended to the list of
  findings. Section 7 has a rule that raises recorded with its target, and the
  evaluation goes on with the remaining pairs.
\<close>

record Model =
  elements :: "nat list"
  flows :: "nat list"

definition targets :: "Model \<Rightarrow> Element list" where
  "targets m = map ComponentRef (elements m) @ map DataFlowRef (flows m)"

record Result =
  risks :: "Risk list"
  failed :: "(Threat \<times> Element \<times> error) list"

fun apply_to_targets ::
  "Threat \<Rightarrow> Element list \<Rightarrow> Store \<Rightarrow> Result \<Rightarrow> Result \<times> Store" where
  "apply_to_targets r [] s acc = (acc, s)"
| "apply_to_targets r (t # ts) s acc =
     (if is_eligible r s t then
        (case Threat_apply r t s of
           (Inr None, s') \<Rightarrow> apply_to_targets r ts s' acc
         | (Inr (Some k), s') \<Rightarrow> apply_to_targets r ts s' (acc\<lparr>risks := risks acc @ [k]\<rparr>)
         | (Inl e, s') \<Rightarrow> apply_to_targets r ts s' (acc\<lparr>failed := failed acc @ [(r, t, e)]\<rparr>))
      else apply_to_targets r ts s acc)"

fun apply_threats ::
  "Threat list \<Rightarrow> Element list \<Rightarrow> Store \<Rightarrow> Result \<Rightarrow> Result \<times> Store" where
  "apply_threats [] ts s acc = (acc, s)"
| "apply_threats (r # rs) ts s acc =
     (case apply_to_targets r ts s acc of (acc', s') \<Rightarrow> apply_threats rs ts s' acc')"

definition evaluate :: "Model \<Rightarrow> Threat list \<Rightarrow> Store \<Rightarrow> Result \<times> Store" where
  "evaluate m lib s = apply_threats lib (targets m) s \<lparr>risks = [], failed = []\<rparr>"

text \<open>The findings of a result that one rule reports on one element.\<close>

definition risks_on :: "Element \<Rightarrow> Threat \<Rightarrow> Result \<Rightarrow> Risk list" where
  "risks_on t r res = filter (\<lambda>k. target k = t \<and> threat k = r) (risks res)"

text \<open>All findings of a result on one element (\<^verbatim>\<open>findings_for\<close> of section 4.5).\<close>

definition findings_for :: "Element \<Rightarrow> Result \<Rightarrow> Risk list" where
  "findings_for t res = filter (\<lambda>k. target k = t) (risks res)"

text \<open>
  What one pair of a rule and a target adds to the findings: the risk that \<^verbatim>\<open>apply\<close>
  returns, when the rule is eligible for the target and its \<^verbatim>\<open>apply\<close> returns one.
\<close>

definition result_risk :: "Threat \<Rightarrow> Store \<Rightarrow> Element \<Rightarrow> Risk option" where
  "result_risk r s t =
     (if is_eligible r s t then
        (case fst (Threat_apply r t s) of Inr (Some k) \<Rightarrow> Some k | _ \<Rightarrow> None)
      else None)"

section \<open>The state of a target\<close>

text \<open>
  What a rule can reach from its target: the object itself and, for a data flow, the
  objects of its source and its destination.
\<close>

datatype TargetState =
  ComponentState Component
| DataFlowState DataFlow Component Component

fun target_state :: "Store \<Rightarrow> Element \<Rightarrow> TargetState" where
  "target_state s (ComponentRef a) = ComponentState (components s a)"
| "target_state s (DataFlowRef a) =
     DataFlowState (data_flows s a)
       (components s (source (data_flows s a)))
       (components s (destination (data_flows s a)))"

section \<open>Example models\<close>

text \<open>
  The model of \<^verbatim>\<open>examples/example.py\<close>: a user, a REST web service and its database,
  a login over HTTPS and a query over SQL. No component declares a control.
\<close>

definition user :: TechnicalComponent where
  "user = \<lparr>component_name = ''User'', technology = WEB_SERVICE_REST, controls = {},
           environment_variables = False, web_application = False\<rparr>"


definition database :: TechnicalComponent where
  "database = \<lparr>component_name = ''Database'', technology = DATABASE, controls = {},
               environment_variables = False, web_application = False\<rparr>"




definition example_model :: Model where
  "example_model = \<lparr>elements = [10, 11, 12], flows = [20, 21]\<rparr>"

text \<open>A second model, whose objects meet or miss the conditions of the single rules.\<close>

definition worker :: TechnicalComponent where
  "worker = \<lparr>component_name = ''Worker'', technology = WEB_SERVICE_REST, controls = {},
             environment_variables = True, web_application = False\<rparr>"

definition file_server :: TechnicalComponent where
  "file_server = \<lparr>component_name = ''Files'', technology = FILE_SERVER, controls = {},
                  environment_variables = False, web_application = False\<rparr>"

definition local_files :: TechnicalComponent where
  "local_files = \<lparr>component_name = ''LocalFiles'', technology = LOCAL_FILE_SYSTEM,
                  controls = {}, environment_variables = False, web_application = False\<rparr>"

definition hardened :: TechnicalComponent where
  "hardened = \<lparr>component_name = ''Hardened'', technology = WEB_SERVICE_REST,
               controls = {INPUT_BOUNDS_CHECKS, INPUT_SANITIZING, PARAMETERIZATION},
               environment_variables = True, web_application = True\<rparr>"

definition parameterized :: TechnicalComponent where
  "parameterized = \<lparr>component_name = ''Parameterized'', technology = WEB_SERVICE_REST,
                    controls = {PARAMETERIZATION},
                    environment_variables = False, web_application = False\<rparr>"

definition session_flow :: DataFlow where
  "session_flow = \<lparr>flow_name = ''Session'', source = 10, destination = 11, protocol = HTTPS,
                   authentication = SESSION_ID, encrypted = False\<rparr>"

definition encrypted_flow :: DataFlow where
  "encrypted_flow = \<lparr>flow_name = ''Tunnel'', source = 10, destination = 11, protocol = HTTPS,
                     authentication = SESSION_ID, encrypted = True\<rparr>"

definition document_query :: DataFlow where
  "document_query = \<lparr>flow_name = ''Documents'', source = 11, destination = 15,
                     protocol = NOSQL, authentication = NONE, encrypted = False\<rparr>"

definition prepared_query :: DataFlow where
  "prepared_query = \<lparr>flow_name = ''Prepared'', source = 16, destination = 15,
                     protocol = SQL, authentication = NONE, encrypted = False\<rparr>"

definition sample_store :: Store where
  "sample_store =
     \<lparr>components = (\<lambda>_. Actor user)
        (11 := Process worker, 12 := Process file_server, 13 := Process local_files,
         14 := Process hardened, 15 := DataStore database, 16 := Process parameterized),
      data_flows = (\<lambda>_. session_flow)
        (21 := encrypted_flow, 22 := document_query, 23 := prepared_query)\<rparr>"

definition sample_model :: Model where
  "sample_model = \<lparr>elements = [10, 11, 12, 13, 14, 15, 16], flows = [20, 21, 22, 23]\<rparr>"

text \<open>The second model at a later moment: another object has changed.\<close>

definition later_store :: Store where
  "later_store = sample_store\<lparr>components := (components sample_store)(12 := Process hardened)\<rparr>"

section \<open>Evaluating the expressions\<close>

lemma Controls_getattr_members:
  "Controls_getattr ''INPUT_SANITIZING'' = Inr INPUT_SANITIZING"
  "Controls_getattr ''INPUT_VALIDATION'' = Inr INPUT_VALIDATION"
  "Controls_getattr ''INPUT_BOUNDS_CHECKS'' = Inr INPUT_BOUNDS_CHECKS"
  "Controls_getattr ''Parameterization'' = Inr PARAMETERIZATION"
  "Controls_getattr ''SERVER_SIDE_INCLUDES_DEACTIVATION'' = Inr SERVER_SIDE_INCLUDES_DEACTIVATION"
  by (simp_all add: Controls_getattr_def Controls_members_def)

lemma py_bind_simps:
  "py_bind (Inr x) k = k x"
  "py_bind (Inl e) k = Inl e"
  by (simp_all add: py_bind_def)

lemma py_not_simps:
  "py_not (Inr b) = Inr (\<not> b)"
  "py_not (Inl e) = Inl e"
  by (simp_all add: py_not_def py_bind_def)

lemma py_and_simps:
  "py_and (Inr True) x = x"
  "py_and (Inr False) x = Inr False"
  "py_and (Inl e) x = Inl e"
  by (simp_all add: py_and_def py_bind_def)

lemma py_and_Inr: "py_and (Inr a) (Inr b) = Inr (a \<and> b)"
  by (simp add: py_and_def py_bind_def)

lemma py_or_Inr: "py_or (Inr a) (Inr b) = Inr (a \<or> b)"
  by (simp add: py_or_def py_bind_def)

lemma risk_if_simps:
  "risk_if (Inr b) k = Inr (if b then Some k else None)"
  "risk_if (Inl e) k = Inl e"
  by (simp_all add: risk_if_def py_bind_def)

lemma call_has_control_members:
  "call_has_control c ''INPUT_SANITIZING'' = Inr (has_control c INPUT_SANITIZING)"
  "call_has_control c ''INPUT_VALIDATION'' = Inr (has_control c INPUT_VALIDATION)"
  "call_has_control c ''INPUT_BOUNDS_CHECKS'' = Inr (has_control c INPUT_BOUNDS_CHECKS)"
  "call_has_control c ''Parameterization'' = Inr (has_control c PARAMETERIZATION)"
  "call_has_control c ''SERVER_SIDE_INCLUDES_DEACTIVATION'' =
     Inr (has_control c SERVER_SIDE_INCLUDES_DEACTIVATION)"
  by (simp_all add: call_has_control_def Controls_getattr_members py_bind_simps)

lemmas py_eval =
  py_bind_simps py_not_simps py_and_simps py_and_Inr py_or_Inr risk_if_simps
  call_has_control_members

section \<open>What each rule returns\<close>

lemma CAPEC_10_apply_Process:
  "as_Process s t = Some p \<Longrightarrow>
   fst (CAPEC_10_apply t s) =
     Inr (if environment_variables p \<and> \<not> has_control p INPUT_SANITIZING
             \<and> \<not> has_control p INPUT_BOUNDS_CHECKS
          then Some \<lparr>target = t, threat = CAPEC_10, impact = HIGH, likelihood = VERY_LIKELY\<rparr>
          else None)"
  by (simp add: CAPEC_10_apply_def py_eval)

lemma CAPEC_100_apply_Process:
  "as_Process s t = Some p \<Longrightarrow>
   fst (CAPEC_100_apply t s) =
     Inr (if \<not> has_control p INPUT_BOUNDS_CHECKS
          then Some \<lparr>target = t, threat = CAPEC_100, impact = VERY_HIGH,
                     likelihood = VERY_LIKELY\<rparr>
          else None)"
  by (simp add: CAPEC_100_apply_def py_eval)

lemma CAPEC_101_apply_Process:
  "as_Process s t = Some p \<Longrightarrow>
   fst (CAPEC_101_apply t s) =
     Inr (if \<not> has_control p SERVER_SIDE_INCLUDES_DEACTIVATION
             \<and> \<not> has_control p INPUT_SANITIZING \<and> is_web_application p
          then Some \<lparr>target = t, threat = CAPEC_101, impact = HIGH, likelihood = LIKELY\<rparr>
          else None)"
  by (simp add: CAPEC_101_apply_def py_eval)

lemma CAPEC_126_apply_Process:
  "as_Process s t = Some p \<Longrightarrow>
   fst (CAPEC_126_apply t s) =
     Inr (if (technology p = FILE_SERVER \<or> technology p = LOCAL_FILE_SYSTEM)
             \<and> \<not> has_control p INPUT_SANITIZING \<and> \<not> has_control p INPUT_VALIDATION
          then Some \<lparr>target = t, threat = CAPEC_126, impact = MEDIUM,
                     likelihood = VERY_LIKELY\<rparr>
          else None)"
  by (auto simp add: CAPEC_126_apply_def py_eval)

lemma CAPEC_102_apply_DataFlow:
  "fst (CAPEC_102_apply (DataFlowRef a) s) =
     Inr (if \<not> is_encrypted (data_flows s a) \<and> authentication (data_flows s a) = SESSION_ID
          then Some \<lparr>target = DataFlowRef a, threat = CAPEC_102, impact = HIGH,
                     likelihood = LIKELY\<rparr>
          else None)"
  by (simp add: CAPEC_102_apply_def py_eval)

lemma CAPEC_676_apply_DataFlow:
  "fst (CAPEC_676_apply (DataFlowRef a) s) =
     Inr (if is_nosql_database_protocol (data_flows s a)
             \<and> \<not> has_control (attributes (components s (source (data_flows s a)))) INPUT_SANITIZING
             \<and> \<not> has_control (attributes (components s (source (data_flows s a)))) INPUT_VALIDATION
          then Some \<lparr>target = ComponentRef (source (data_flows s a)), threat = CAPEC_676,
                     impact = HIGH, likelihood = LIKELY\<rparr>
          else None)"
  by (simp add: CAPEC_676_apply_def py_eval Let_def)

lemma CAPEC_66_apply_DataFlow:
  "fst (CAPEC_66_apply (DataFlowRef a) s) =
     Inr (if is_relational_database_protocol (data_flows s a)
             \<and> \<not> has_control (attributes (components s (source (data_flows s a)))) INPUT_SANITIZING
             \<and> \<not> has_control (attributes (components s (source (data_flows s a)))) INPUT_VALIDATION
             \<and> \<not> has_control (attributes (components s (source (data_flows s a)))) PARAMETERIZATION
          then Some \<lparr>target = ComponentRef (source (data_flows s a)), threat = CAPEC_66,
                     impact = HIGH, likelihood = LIKELY\<rparr>
          else None)"
  by (simp add: CAPEC_66_apply_def py_eval Let_def)

lemma apply_not_Process:
  "as_Process s t = None \<Longrightarrow> fst (CAPEC_10_apply t s) = Inr None"
  "as_Process s t = None \<Longrightarrow> fst (CAPEC_100_apply t s) = Inr None"
  "as_Process s t = None \<Longrightarrow> fst (CAPEC_101_apply t s) = Inr None"
  "as_Process s t = None \<Longrightarrow> fst (CAPEC_126_apply t s) = Inr None"
  by (simp_all add: CAPEC_10_apply_def CAPEC_100_apply_def CAPEC_101_apply_def
      CAPEC_126_apply_def)

lemma apply_not_DataFlow:
  "fst (CAPEC_66_apply (ComponentRef a) s) = Inr None"
  "fst (CAPEC_102_apply (ComponentRef a) s) = Inr None"
  "fst (CAPEC_676_apply (ComponentRef a) s) = Inr None"
  by (simp_all add: CAPEC_66_apply_def CAPEC_102_apply_def CAPEC_676_apply_def)

lemma Threat_apply_store: "snd (Threat_apply r t s) = s"
  by (cases r)
    (simp_all add: CAPEC_10_apply_def CAPEC_66_apply_def CAPEC_100_apply_def
      CAPEC_101_apply_def CAPEC_102_apply_def CAPEC_126_apply_def CAPEC_676_apply_def
      Let_def split: option.split)

lemma as_Process_Some:
  "as_Process s t = Some p \<longleftrightarrow> (\<exists>a. t = ComponentRef a \<and> components s a = Process p)"
  by (cases t) (auto split: Component.splits)

lemma as_Process_kind: "as_Process s t = None \<longleftrightarrow> kind_of s t \<noteq> ProcessK"
  by (cases t) (auto split: Component.splits)

section \<open>The example stores\<close>



lemma sample_components:
  "components sample_store 11 = Process worker"
  "components sample_store 12 = Process file_server"
  "components sample_store 13 = Process local_files"
  "components sample_store 14 = Process hardened"
  "components sample_store 15 = DataStore database"
  "components sample_store 16 = Process parameterized"
  by (simp_all add: sample_store_def)

lemma sample_data_flows:
  "data_flows sample_store 20 = session_flow"
  "data_flows sample_store 21 = encrypted_flow"
  "data_flows sample_store 22 = document_query"
  "data_flows sample_store 23 = prepared_query"
  by (simp_all add: sample_store_def)

section \<open>Buffer overflow (CAPEC-100)\<close>

text \<open>
  Claim C5. Applied to a Process that lacks the INPUT_BOUNDS_CHECKS control, the
  buffer-overflow rule CAPEC-100 returns a finding on that Process with impact VERY_HIGH
  and likelihood VERY_LIKELY; applied to a Process that has the control, it returns no
  finding.
\<close>

theorem CAPEC_100_bounds_checks:
  assumes "components s a = Process p"
  shows "(\<not> has_control p INPUT_BOUNDS_CHECKS \<longrightarrow>
            fst (Threat_apply CAPEC_100 (ComponentRef a) s) =
              Inr (Some \<lparr>target = ComponentRef a, threat = CAPEC_100,
                         impact = VERY_HIGH, likelihood = VERY_LIKELY\<rparr>))
       \<and> (has_control p INPUT_BOUNDS_CHECKS \<longrightarrow>
            fst (Threat_apply CAPEC_100 (ComponentRef a) s) = Inr None)"
proof -
  from assms have "as_Process s (ComponentRef a) = Some p"
    by simp
  then show ?thesis
    by (simp add: CAPEC_100_apply_Process)
qed

theorem CAPEC_100_bounds_checks_witness:
  "components sample_store 11 = Process worker
   \<and> \<not> has_control worker INPUT_BOUNDS_CHECKS
   \<and> fst (Threat_apply CAPEC_100 (ComponentRef 11) sample_store) =
       Inr (Some \<lparr>target = ComponentRef 11, threat = CAPEC_100,
                  impact = VERY_HIGH, likelihood = VERY_LIKELY\<rparr>)
   \<and> components sample_store 14 = Process hardened
   \<and> has_control hardened INPUT_BOUNDS_CHECKS
   \<and> fst (Threat_apply CAPEC_100 (ComponentRef 14) sample_store) = Inr None"
proof -
  have w: "\<not> has_control worker INPUT_BOUNDS_CHECKS"
    by (simp add: has_control_def worker_def)
  have h: "has_control hardened INPUT_BOUNDS_CHECKS"
    by (simp add: has_control_def hardened_def)
  from CAPEC_100_bounds_checks [OF sample_components(1)] w
       CAPEC_100_bounds_checks [OF sample_components(4)] h
  show ?thesis
    by (simp add: sample_components)
qed

section \<open>Session sidejacking (CAPEC-102)\<close>

text \<open>
  Claim C6. Applied to a data flow that is not encrypted and whose authentication mode
  is SESSION_ID, the session-sidejacking rule CAPEC-102 returns one finding, on the
  flow itself, with impact HIGH and likelihood LIKELY; applied to an encrypted flow, it
  returns no finding.
\<close>

theorem CAPEC_102_session_sidejacking:
  "(\<not> is_encrypted (data_flows s a) \<and> authentication (data_flows s a) = SESSION_ID \<longrightarrow>
      fst (Threat_apply CAPEC_102 (DataFlowRef a) s) =
        Inr (Some \<lparr>target = DataFlowRef a, threat = CAPEC_102,
                   impact = HIGH, likelihood = LIKELY\<rparr>))
   \<and> (is_encrypted (data_flows s a) \<longrightarrow>
        fst (Threat_apply CAPEC_102 (DataFlowRef a) s) = Inr None)"
  by (simp add: CAPEC_102_apply_DataFlow)

theorem CAPEC_102_session_sidejacking_witness:
  "\<not> is_encrypted (data_flows sample_store 20)
   \<and> authentication (data_flows sample_store 20) = SESSION_ID
   \<and> fst (Threat_apply CAPEC_102 (DataFlowRef 20) sample_store) =
       Inr (Some \<lparr>target = DataFlowRef 20, threat = CAPEC_102,
                  impact = HIGH, likelihood = LIKELY\<rparr>)
   \<and> is_encrypted (data_flows sample_store 21)
   \<and> fst (Threat_apply CAPEC_102 (DataFlowRef 21) sample_store) = Inr None"
proof -
  have u: "\<not> is_encrypted (data_flows sample_store 20)
      \<and> authentication (data_flows sample_store 20) = SESSION_ID"
    by (simp add: sample_data_flows is_encrypted_def session_flow_def)
  have e: "is_encrypted (data_flows sample_store 21)"
    by (simp add: sample_data_flows is_encrypted_def encrypted_flow_def)
  from CAPEC_102_session_sidejacking [of sample_store 20] u
       CAPEC_102_session_sidejacking [of sample_store 21] e
  show ?thesis
    by simp
qed

section \<open>NoSQL injection (CAPEC-676)\<close>

text \<open>
  Claim C10. Applied to a data flow that uses a NoSQL database protocol and whose
  source element lacks both the INPUT_SANITIZING and the INPUT_VALIDATION control, the
  NoSQL-injection rule CAPEC-676 returns one finding with impact HIGH and likelihood
  LIKELY, whose target is the source element of the flow and not the flow; in every
  other case it returns no finding.
\<close>

theorem CAPEC_676_nosql_injection:
  assumes "f = data_flows s a" and "src = attributes (components s (source f))"
  shows "(is_nosql_database_protocol f \<and> \<not> has_control src INPUT_SANITIZING
            \<and> \<not> has_control src INPUT_VALIDATION \<longrightarrow>
          fst (Threat_apply CAPEC_676 (DataFlowRef a) s) =
            Inr (Some \<lparr>target = ComponentRef (source f), threat = CAPEC_676,
                       impact = HIGH, likelihood = LIKELY\<rparr>))
       \<and> (\<not> (is_nosql_database_protocol f \<and> \<not> has_control src INPUT_SANITIZING
               \<and> \<not> has_control src INPUT_VALIDATION) \<longrightarrow>
          fst (Threat_apply CAPEC_676 (DataFlowRef a) s) = Inr None)
       \<and> fst (Threat_apply CAPEC_676 (ComponentRef b) s) = Inr None"
  using assms by (simp add: CAPEC_676_apply_DataFlow apply_not_DataFlow)

theorem CAPEC_676_nosql_injection_witness:
  "document_query = data_flows sample_store 22
   \<and> worker = attributes (components sample_store (source document_query))
   \<and> is_nosql_database_protocol document_query
   \<and> \<not> has_control worker INPUT_SANITIZING \<and> \<not> has_control worker INPUT_VALIDATION
   \<and> fst (Threat_apply CAPEC_676 (DataFlowRef 22) sample_store) =
       Inr (Some \<lparr>target = ComponentRef 11, threat = CAPEC_676,
                  impact = HIGH, likelihood = LIKELY\<rparr>)
   \<and> session_flow = data_flows sample_store 20
   \<and> \<not> is_nosql_database_protocol session_flow
   \<and> fst (Threat_apply CAPEC_676 (DataFlowRef 20) sample_store) = Inr None"
proof -
  have f: "document_query = data_flows sample_store 22"
    by (simp add: sample_data_flows)
  have src: "worker = attributes (components sample_store (source document_query))"
    by (simp add: document_query_def sample_components)
  have c: "is_nosql_database_protocol document_query
      \<and> \<not> has_control worker INPUT_SANITIZING \<and> \<not> has_control worker INPUT_VALIDATION"
    by (simp add: is_nosql_database_protocol_def document_query_def has_control_def worker_def)
  have g: "session_flow = data_flows sample_store 20"
    by (simp add: sample_data_flows)
  have n: "\<not> is_nosql_database_protocol session_flow"
    by (simp add: is_nosql_database_protocol_def session_flow_def)
  have s11: "source document_query = 11"
    by (simp add: document_query_def)
  from CAPEC_676_nosql_injection [OF f src] c
       CAPEC_676_nosql_injection [OF g refl] n f src g s11
  show ?thesis
    by simp
qed

section \<open>Path traversal (CAPEC-126)\<close>

text \<open>
  Claim C3 as stated: that a Process whose technology is not FILE_SERVER never gets a finding
  from CAPEC-126. It fails: the rule tests the technology against the list of FILE_SERVER
  and LOCAL_FILE_SYSTEM, and a LOCAL_FILE_SYSTEM Process without the two controls gets
  the finding.
\<close>

theorem CAPEC_126_local_file_system_counterexample:
  "components sample_store 13 = Process local_files
   \<and> technology local_files \<noteq> FILE_SERVER
   \<and> fst (Threat_apply CAPEC_126 (ComponentRef 13) sample_store) =
       Inr (Some \<lparr>target = ComponentRef 13, threat = CAPEC_126,
                  impact = MEDIUM, likelihood = VERY_LIKELY\<rparr>)"
proof -
  have "as_Process sample_store (ComponentRef 13) = Some local_files"
    by (simp add: sample_components)
  then show ?thesis
    by (simp add: CAPEC_126_apply_Process sample_components)
      (simp add: local_files_def has_control_def)
qed

text \<open>
  Claim C3, as amended. Applied to a Process whose technology is FILE_SERVER and which
  lacks both the INPUT_SANITIZING and the INPUT_VALIDATION control, the path-traversal
  rule CAPEC-126 returns one finding with impact MEDIUM and likelihood VERY_LIKELY;
  applied to a Process whose technology is neither FILE_SERVER nor LOCAL_FILE_SYSTEM,
  it returns no finding, whatever controls the Process has.
\<close>

theorem CAPEC_126_path_traversal:
  assumes "components s a = Process p"
  shows "(technology p = FILE_SERVER \<and> \<not> has_control p INPUT_SANITIZING
            \<and> \<not> has_control p INPUT_VALIDATION \<longrightarrow>
          fst (Threat_apply CAPEC_126 (ComponentRef a) s) =
            Inr (Some \<lparr>target = ComponentRef a, threat = CAPEC_126,
                       impact = MEDIUM, likelihood = VERY_LIKELY\<rparr>))
       \<and> (technology p \<noteq> FILE_SERVER \<and> technology p \<noteq> LOCAL_FILE_SYSTEM \<longrightarrow>
          fst (Threat_apply CAPEC_126 (ComponentRef a) s) = Inr None)"
proof -
  from assms have "as_Process s (ComponentRef a) = Some p"
    by simp
  then show ?thesis
    by (simp add: CAPEC_126_apply_Process)
qed

theorem CAPEC_126_path_traversal_witness:
  "components sample_store 12 = Process file_server
   \<and> technology file_server = FILE_SERVER
   \<and> \<not> has_control file_server INPUT_SANITIZING
   \<and> \<not> has_control file_server INPUT_VALIDATION
   \<and> fst (Threat_apply CAPEC_126 (ComponentRef 12) sample_store) =
       Inr (Some \<lparr>target = ComponentRef 12, threat = CAPEC_126,
                  impact = MEDIUM, likelihood = VERY_LIKELY\<rparr>)
   \<and> components sample_store 11 = Process worker
   \<and> technology worker \<noteq> FILE_SERVER \<and> technology worker \<noteq> LOCAL_FILE_SYSTEM
   \<and> fst (Threat_apply CAPEC_126 (ComponentRef 11) sample_store) = Inr None"
proof -
  have f: "technology file_server = FILE_SERVER
      \<and> \<not> has_control file_server INPUT_SANITIZING
      \<and> \<not> has_control file_server INPUT_VALIDATION"
    by (simp add: file_server_def has_control_def)
  have w: "technology worker \<noteq> FILE_SERVER \<and> technology worker \<noteq> LOCAL_FILE_SYSTEM"
    by (simp add: worker_def)
  from CAPEC_126_path_traversal [OF sample_components(2)] f
       CAPEC_126_path_traversal [OF sample_components(1)] w
  show ?thesis
    by (simp add: sample_components)
qed

section \<open>Targets of another kind\<close>

text \<open>
  Claim C9. For every rule of the default library and every target whose runtime kind
  is not among the kinds that the rule declares, a direct call of \<^verbatim>\<open>apply\<close> returns
  \<^verbatim>\<open>None\<close> and does not raise: each \<^verbatim>\<open>apply\<close> starts with a test of the kind.
\<close>

theorem apply_outside_eligible_kinds:
  assumes "r \<in> set DEFAULT_THREATLIB" and "kind_of s t \<notin> set (target_types r)"
  shows "fst (Threat_apply r t s) = Inr None"
proof -
  have P: "fst (CAPEC_10_apply t s) = Inr None \<and> fst (CAPEC_100_apply t s) = Inr None
      \<and> fst (CAPEC_101_apply t s) = Inr None \<and> fst (CAPEC_126_apply t s) = Inr None"
    if "kind_of s t \<noteq> ProcessK"
  proof -
    from that have "as_Process s t = None"
      by (simp add: as_Process_kind)
    then show ?thesis
      by (simp add: apply_not_Process)
  qed
  have D: "fst (CAPEC_66_apply t s) = Inr None \<and> fst (CAPEC_102_apply t s) = Inr None
      \<and> fst (CAPEC_676_apply t s) = Inr None"
    if "kind_of s t \<noteq> DataFlowK"
    using that by (cases t) (simp_all add: apply_not_DataFlow)
  from assms(2) P D show ?thesis
    by (cases r) simp_all
qed

theorem apply_outside_eligible_kinds_witness:
  "CAPEC_66 \<in> set DEFAULT_THREATLIB
   \<and> kind_of sample_store (ComponentRef 11) \<notin> set (target_types CAPEC_66)
   \<and> fst (Threat_apply CAPEC_66 (ComponentRef 11) sample_store) = Inr None
   \<and> CAPEC_10 \<in> set DEFAULT_THREATLIB
   \<and> kind_of sample_store (DataFlowRef 20) \<notin> set (target_types CAPEC_10)
   \<and> fst (Threat_apply CAPEC_10 (DataFlowRef 20) sample_store) = Inr None"
proof -
  have m: "CAPEC_66 \<in> set DEFAULT_THREATLIB" "CAPEC_10 \<in> set DEFAULT_THREATLIB"
    by (simp_all add: DEFAULT_THREATLIB_def)
  have k: "kind_of sample_store (ComponentRef 11) \<notin> set (target_types CAPEC_66)"
    by (simp add: sample_components)
  have l: "kind_of sample_store (DataFlowRef 20) \<notin> set (target_types CAPEC_10)"
    by simp
  from apply_outside_eligible_kinds [OF m(1) k] apply_outside_eligible_kinds [OF m(2) l] m k l
  show ?thesis
    by simp
qed

section \<open>SQL injection (CAPEC-66)\<close>



section \<open>No rule raises\<close>




section \<open>Rules are pure\<close>

lemma target_state_result:
  assumes "target_state s' t = target_state s t"
  shows "fst (Threat_apply r t s') = fst (Threat_apply r t s)"
proof (cases t)
  case (ComponentRef a)
  with assms have c: "components s' a = components s a"
    by simp
  have "as_Process s' t = as_Process s t"
    by (simp add: ComponentRef c)
  then have "fst (CAPEC_10_apply t s') = fst (CAPEC_10_apply t s)"
    and "fst (CAPEC_100_apply t s') = fst (CAPEC_100_apply t s)"
    and "fst (CAPEC_101_apply t s') = fst (CAPEC_101_apply t s)"
    and "fst (CAPEC_126_apply t s') = fst (CAPEC_126_apply t s)"
    by (simp_all add: CAPEC_10_apply_def CAPEC_100_apply_def CAPEC_101_apply_def
        CAPEC_126_apply_def split: option.split)
  then show ?thesis
    by (cases r) (simp_all add: ComponentRef apply_not_DataFlow)
next
  case (DataFlowRef a)
  from assms have f: "data_flows s' a = data_flows s a"
    unfolding DataFlowRef target_state.simps TargetState.inject by (rule conjunct1)
  from assms
  have "components s' (source (data_flows s' a)) = components s (source (data_flows s a))"
    unfolding DataFlowRef target_state.simps TargetState.inject by (elim conjE)
  then have c: "components s' (source (data_flows s a)) = components s (source (data_flows s a))"
    by (simp only: f)
  have "fst (CAPEC_66_apply t s') = fst (CAPEC_66_apply t s)"
    and "fst (CAPEC_102_apply t s') = fst (CAPEC_102_apply t s)"
    and "fst (CAPEC_676_apply t s') = fst (CAPEC_676_apply t s)"
    by (simp_all only: DataFlowRef CAPEC_66_apply_DataFlow CAPEC_102_apply_DataFlow
        CAPEC_676_apply_DataFlow f c)
  then show ?thesis
    by (cases r) (simp_all add: DataFlowRef apply_not_Process)
qed

text \<open>
  Claim C7. For every rule of the default library, \<^verbatim>\<open>apply\<close> is a pure function of
  the state of its target: invoked on the target in two stores that agree on the state
  of the target (the object and, for a data flow, its source and destination), it
  returns the same result, with the same presence of a finding, target reference,
  impact and likelihood; it leaves the store as it found it, so that a second
  invocation returns what the first one did.
\<close>

theorem apply_pure:
  assumes "r \<in> set DEFAULT_THREATLIB" and "target_state s' t = target_state s t"
  shows "fst (Threat_apply r t s') = fst (Threat_apply r t s)
       \<and> snd (Threat_apply r t s) = s
       \<and> fst (Threat_apply r t (snd (Threat_apply r t s))) = fst (Threat_apply r t s)"
proof -
  note target_state_result [OF assms(2), of r]
  moreover have "snd (Threat_apply r t s) = s"
    by (rule Threat_apply_store)
  ultimately show ?thesis
    by (simp only: simp_thms)
qed

theorem apply_pure_witness:
  "CAPEC_10 \<in> set DEFAULT_THREATLIB
   \<and> target_state later_store (ComponentRef 11) = target_state sample_store (ComponentRef 11)
   \<and> components later_store 12 \<noteq> components sample_store 12
   \<and> fst (Threat_apply CAPEC_10 (ComponentRef 11) later_store) =
       fst (Threat_apply CAPEC_10 (ComponentRef 11) sample_store)
   \<and> snd (Threat_apply CAPEC_10 (ComponentRef 11) sample_store) = sample_store"
proof -
  have m: "CAPEC_10 \<in> set DEFAULT_THREATLIB"
    by (simp add: DEFAULT_THREATLIB_def)
  have e: "target_state later_store (ComponentRef 11) = target_state sample_store (ComponentRef 11)"
    by (simp add: later_store_def)
  have d: "components later_store 12 \<noteq> components sample_store 12"
    by (simp add: later_store_def sample_components hardened_def file_server_def)
  from apply_pure [OF m e] m e d show ?thesis
    by (simp only: simp_thms)
qed

section \<open>Evaluation against the default library\<close>

text \<open>
  The store comes back from every \<^verbatim>\<open>apply\<close> as it was, so the findings of an
  evaluation are, rule by rule and target by target, what \<open>result_risk\<close> gives.
\<close>

lemma apply_to_targets_Cons:
  "apply_to_targets r (t # ts) s acc =
     apply_to_targets r ts s
       (if is_eligible r s t then
          (case fst (Threat_apply r t s) of
             Inr None \<Rightarrow> acc
           | Inr (Some k) \<Rightarrow> acc\<lparr>risks := risks acc @ [k]\<rparr>
           | Inl e \<Rightarrow> acc\<lparr>failed := failed acc @ [(r, t, e)]\<rparr>)
        else acc)"
proof -
  obtain x where x: "Threat_apply r t s = (x, s)"
    using Threat_apply_store [of r t s] by (cases "Threat_apply r t s") simp
  show ?thesis
    by (cases x) (simp_all add: x split: option.split)
qed

lemma apply_to_targets_risks:
  "risks (fst (apply_to_targets r ts s acc)) = risks acc @ List.map_filter (result_risk r s) ts"
proof (induction ts arbitrary: acc)
  case Nil
  show ?case
    by (simp add: List.map_filter_simps)
next
  case (Cons t ts)
  show ?case
    unfolding apply_to_targets_Cons Cons.IH
    by (simp add: List.map_filter_simps result_risk_def [of r s t]
        split: sum.split option.split)
qed

lemma apply_to_targets_store: "snd (apply_to_targets r ts s acc) = s"
proof (induction ts arbitrary: acc)
  case Nil
  show ?case by simp
next
  case (Cons t ts)
  show ?case
    unfolding apply_to_targets_Cons by (rule Cons.IH)
qed

lemma apply_threats_risks:
  "risks (fst (apply_threats rs ts s acc)) =
     risks acc @ concat (map (\<lambda>r. List.map_filter (result_risk r s) ts) rs)"
proof (induction rs arbitrary: acc)
  case Nil
  show ?case by simp
next
  case (Cons r rs)
  obtain acc' where a: "apply_to_targets r ts s acc = (acc', s)"
    using apply_to_targets_store [of r ts s acc] by (cases "apply_to_targets r ts s acc") simp
  from apply_to_targets_risks [of r ts s acc] a
  have "risks acc' = risks acc @ List.map_filter (result_risk r s) ts"
    by simp
  then show ?case
    by (simp add: a Cons.IH)
qed

lemma evaluate_risks:
  "risks (fst (evaluate m lib s)) =
     concat (map (\<lambda>r. List.map_filter (result_risk r s) (targets m)) lib)"
  by (simp add: evaluate_def apply_threats_risks)

lemma evaluate_store: "snd (evaluate m lib s) = s"
proof -
  have "snd (apply_threats rs ts s acc) = s" for rs ts acc
  proof (induction rs arbitrary: acc)
    case Nil
    show ?case by simp
  next
    case (Cons r rs)
    obtain acc' where a: "apply_to_targets r ts s acc = (acc', s)"
      using apply_to_targets_store [of r ts s acc] by (cases "apply_to_targets r ts s acc") simp
    show ?case
      by (simp add: a Cons.IH)
  qed
  then show ?thesis
    by (simp add: evaluate_def)
qed

lemma filter_map_filter_none:
  assumes "\<And>t k. f t = Some k \<Longrightarrow> \<not> P k"
  shows "filter P (List.map_filter f ts) = []"
  using assms by (induction ts) (auto simp add: List.map_filter_simps split: option.split)

lemma filter_map_filter_own:
  assumes "\<And>t k. f t = Some k \<Longrightarrow> P k \<longleftrightarrow> t = t0"
  shows "filter P (List.map_filter f ts) = List.map_filter f (filter (\<lambda>t. t = t0) ts)"
  using assms by (induction ts) (auto simp add: List.map_filter_simps split: option.split)

lemma filter_eq_distinct:
  "distinct xs \<Longrightarrow> x \<in> set xs \<Longrightarrow> filter (\<lambda>y. y = x) xs = [x]"
  by (induction xs) (auto simp add: filter_empty_conv)

lemma filter_targets_component:
  assumes "distinct (elements m)" and "a \<in> set (elements m)"
  shows "filter (\<lambda>t. t = ComponentRef a) (targets m) = [ComponentRef a]"
proof -
  have "filter (\<lambda>t. t = ComponentRef a) (map ComponentRef (elements m)) =
      map ComponentRef (filter (\<lambda>y. y = a) (elements m))"
    by (simp add: filter_map o_def)
  moreover have "filter (\<lambda>t. t = ComponentRef a) (map DataFlowRef (flows m)) = []"
    by (simp add: filter_empty_conv)
  ultimately show ?thesis
    using assms by (simp add: targets_def filter_eq_distinct)
qed

lemma result_risk_threat: "result_risk r s t = Some k \<Longrightarrow> threat k = r"
proof -
  assume a: "result_risk r s t = Some k"
  then have e: "fst (Threat_apply r t s) = Inr (Some k)"
    by (simp add: result_risk_def split: if_splits sum.splits option.splits)
  show ?thesis
  proof (cases "as_Process s t")
    case None
    show ?thesis
    proof (cases t)
      case (ComponentRef a)
      with None e show ?thesis
        by (cases r) (simp_all add: apply_not_Process apply_not_DataFlow)
    next
      case (DataFlowRef a)
      with None e show ?thesis
        by (cases r)
          (auto simp add: apply_not_Process CAPEC_66_apply_DataFlow CAPEC_102_apply_DataFlow
            CAPEC_676_apply_DataFlow split: if_splits)
    qed
  next
    case (Some p)
    then obtain a where "t = ComponentRef a"
      by (auto simp add: as_Process_Some)
    with Some e show ?thesis
      by (cases r)
        (auto simp add: CAPEC_10_apply_Process CAPEC_100_apply_Process CAPEC_101_apply_Process
          CAPEC_126_apply_Process apply_not_DataFlow split: if_splits)
  qed
qed

lemma result_risk_Process:
  assumes "components s a = Process p"
  shows "result_risk CAPEC_10 s (ComponentRef a) =
           (if environment_variables p \<and> \<not> has_control p INPUT_SANITIZING
               \<and> \<not> has_control p INPUT_BOUNDS_CHECKS
            then Some \<lparr>target = ComponentRef a, threat = CAPEC_10, impact = HIGH,
                       likelihood = VERY_LIKELY\<rparr>
            else None)"
    and "result_risk CAPEC_100 s (ComponentRef a) =
           (if \<not> has_control p INPUT_BOUNDS_CHECKS
            then Some \<lparr>target = ComponentRef a, threat = CAPEC_100, impact = VERY_HIGH,
                       likelihood = VERY_LIKELY\<rparr>
            else None)"
proof -
  from assms have p: "as_Process s (ComponentRef a) = Some p"
    by simp
  from assms have e: "is_eligible CAPEC_10 s (ComponentRef a)" "is_eligible CAPEC_100 s (ComponentRef a)"
    by (simp_all add: is_eligible_def)
  show "result_risk CAPEC_10 s (ComponentRef a) =
           (if environment_variables p \<and> \<not> has_control p INPUT_SANITIZING
               \<and> \<not> has_control p INPUT_BOUNDS_CHECKS
            then Some \<lparr>target = ComponentRef a, threat = CAPEC_10, impact = HIGH,
                       likelihood = VERY_LIKELY\<rparr>
            else None)"
    by (simp add: result_risk_def e CAPEC_10_apply_Process [OF p])
  show "result_risk CAPEC_100 s (ComponentRef a) =
           (if \<not> has_control p INPUT_BOUNDS_CHECKS
            then Some \<lparr>target = ComponentRef a, threat = CAPEC_100, impact = VERY_HIGH,
                       likelihood = VERY_LIKELY\<rparr>
            else None)"
    by (simp add: result_risk_def e CAPEC_100_apply_Process [OF p])
qed

lemma result_risk_own_target:
  assumes "result_risk r s t = Some k" and "r \<in> {CAPEC_10, CAPEC_100, CAPEC_101, CAPEC_102, CAPEC_126}"
  shows "target k = t"
proof -
  from assms(1) have e: "fst (Threat_apply r t s) = Inr (Some k)"
    by (simp add: result_risk_def split: if_splits sum.splits option.splits)
  show ?thesis
  proof (cases "as_Process s t")
    case None
    show ?thesis
    proof (cases t)
      case (ComponentRef a)
      with None e show ?thesis
        by (cases r) (simp_all add: apply_not_Process apply_not_DataFlow)
    next
      case (DataFlowRef a)
      with None e assms(2) show ?thesis
        by (cases r)
          (auto simp add: apply_not_Process CAPEC_102_apply_DataFlow split: if_splits)
    qed
  next
    case (Some p)
    then obtain a where "t = ComponentRef a"
      by (auto simp add: as_Process_Some)
    with Some e show ?thesis
      by (cases r)
        (auto simp add: CAPEC_10_apply_Process CAPEC_100_apply_Process CAPEC_101_apply_Process
          CAPEC_126_apply_Process apply_not_DataFlow split: if_splits)
  qed
qed

lemma risks_on_evaluate:
  assumes "distinct (elements m)" and "a \<in> set (elements m)"
    and "r0 \<in> {CAPEC_10, CAPEC_100, CAPEC_101, CAPEC_102, CAPEC_126}"
  shows "risks_on (ComponentRef a) r0 (fst (evaluate m DEFAULT_THREATLIB s)) =
           (case result_risk r0 s (ComponentRef a) of None \<Rightarrow> [] | Some k \<Rightarrow> [k])"
proof -
  let ?P = "\<lambda>k. target k = ComponentRef a \<and> threat k = r0"
  have other: "filter ?P (List.map_filter (result_risk r s) (targets m)) = []" if "r \<noteq> r0" for r
  proof (rule filter_map_filter_none)
    fix t k assume "result_risk r s t = Some k"
    then have "threat k = r" by (rule result_risk_threat)
    with that show "\<not> ?P k" by simp
  qed
  have "filter ?P (List.map_filter (result_risk r0 s) (targets m)) =
      List.map_filter (result_risk r0 s) (filter (\<lambda>t. t = ComponentRef a) (targets m))"
  proof (rule filter_map_filter_own)
    fix t k assume k: "result_risk r0 s t = Some k"
    then have "threat k = r0" by (rule result_risk_threat)
    moreover from k assms(3) have "target k = t" by (rule result_risk_own_target)
    ultimately show "?P k \<longleftrightarrow> t = ComponentRef a" by simp
  qed
  then have own: "filter ?P (List.map_filter (result_risk r0 s) (targets m)) =
      (case result_risk r0 s (ComponentRef a) of None \<Rightarrow> [] | Some k \<Rightarrow> [k])"
    by (simp add: filter_targets_component [OF assms(1,2)] List.map_filter_simps
        split: option.split)
  have each: "filter ?P (List.map_filter (result_risk r s) (targets m)) =
      (if r = r0 then (case result_risk r0 s (ComponentRef a) of None \<Rightarrow> [] | Some k \<Rightarrow> [k])
       else [])" for r
    using other [of r] own by simp
  from assms(3) show ?thesis
    unfolding risks_on_def evaluate_risks DEFAULT_THREATLIB_def
    by (simp only: list.map concat.simps filter_append each filter.simps) auto
qed

text \<open>
  Claim C4. For a Process of the model with \<^verbatim>\<open>environment_variables = true\<close> that has
  neither the INPUT_SANITIZING nor the INPUT_BOUNDS_CHECKS control, the evaluation of
  the model against the default library yields exactly one finding on that Process
  from the rule CAPEC-10, with impact HIGH and likelihood VERY_LIKELY.
\<close>

theorem evaluate_environment_variables:
  assumes "a \<in> set (elements m)" and "distinct (elements m)"
    and "components s a = Process p"
    and "environment_variables p"
    and "\<not> has_control p INPUT_SANITIZING" and "\<not> has_control p INPUT_BOUNDS_CHECKS"
  shows "risks_on (ComponentRef a) CAPEC_10 (fst (evaluate m DEFAULT_THREATLIB s)) =
           [\<lparr>target = ComponentRef a, threat = CAPEC_10, impact = HIGH,
             likelihood = VERY_LIKELY\<rparr>]"
proof -
  have "risks_on (ComponentRef a) CAPEC_10 (fst (evaluate m DEFAULT_THREATLIB s)) =
      (case result_risk CAPEC_10 s (ComponentRef a) of None \<Rightarrow> [] | Some k \<Rightarrow> [k])"
    using assms(2,1) by (rule risks_on_evaluate) simp
  with assms(4-6) show ?thesis
    by (simp add: result_risk_Process(1) [OF assms(3)])
qed

theorem evaluate_environment_variables_witness:
  "11 \<in> set (elements sample_model) \<and> distinct (elements sample_model)
   \<and> components sample_store 11 = Process worker
   \<and> environment_variables worker
   \<and> \<not> has_control worker INPUT_SANITIZING \<and> \<not> has_control worker INPUT_BOUNDS_CHECKS
   \<and> risks_on (ComponentRef 11) CAPEC_10 (fst (evaluate sample_model DEFAULT_THREATLIB sample_store)) =
       [\<lparr>target = ComponentRef 11, threat = CAPEC_10, impact = HIGH, likelihood = VERY_LIKELY\<rparr>]"
proof -
  have m: "11 \<in> set (elements sample_model)" "distinct (elements sample_model)"
    by (simp_all add: sample_model_def)
  have w: "environment_variables worker" "\<not> has_control worker INPUT_SANITIZING"
    "\<not> has_control worker INPUT_BOUNDS_CHECKS"
    by (simp_all add: worker_def has_control_def)
  from evaluate_environment_variables [OF m sample_components(1) w] m sample_components(1) w
  show ?thesis
    by (simp only: simp_thms)
qed

text \<open>
  The same Process lacks INPUT_BOUNDS_CHECKS, so the evaluation also yields the finding
  of CAPEC-100 on it: the finding of CAPEC-10 is the only one from that rule, not the
  only one on the Process.
\<close>

lemma evaluate_also_overflow_buffers:
  assumes "a \<in> set (elements m)" and "distinct (elements m)"
    and "components s a = Process p"
    and "\<not> has_control p INPUT_BOUNDS_CHECKS"
  shows "risks_on (ComponentRef a) CAPEC_100 (fst (evaluate m DEFAULT_THREATLIB s)) =
           [\<lparr>target = ComponentRef a, threat = CAPEC_100, impact = VERY_HIGH,
             likelihood = VERY_LIKELY\<rparr>]"
proof -
  have "risks_on (ComponentRef a) CAPEC_100 (fst (evaluate m DEFAULT_THREATLIB s)) =
      (case result_risk CAPEC_100 s (ComponentRef a) of None \<Rightarrow> [] | Some k \<Rightarrow> [k])"
    using assms(2,1) by (rule risks_on_evaluate) simp
  with assms(4) show ?thesis
    by (simp add: result_risk_Process(2) [OF assms(3)])
qed

text \<open>
  Both findings are among the findings of the evaluation on that Process.
\<close>

lemma risks_on_findings_for:
  "risks_on t r res = filter (\<lambda>k. threat k = r) (findings_for t res)"
  by (simp add: risks_on_def findings_for_def conj_commute)

lemma evaluate_two_findings:
  assumes "a \<in> set (elements m)" and "distinct (elements m)"
    and "components s a = Process p"
    and "environment_variables p"
    and "\<not> has_control p INPUT_SANITIZING" and "\<not> has_control p INPUT_BOUNDS_CHECKS"
  shows "\<lparr>target = ComponentRef a, threat = CAPEC_10, impact = HIGH, likelihood = VERY_LIKELY\<rparr>
           \<in> set (findings_for (ComponentRef a) (fst (evaluate m DEFAULT_THREATLIB s)))"
    and "\<lparr>target = ComponentRef a, threat = CAPEC_100, impact = VERY_HIGH,
           likelihood = VERY_LIKELY\<rparr>
           \<in> set (findings_for (ComponentRef a) (fst (evaluate m DEFAULT_THREATLIB s)))"
proof -
  let ?res = "fst (evaluate m DEFAULT_THREATLIB s)"
  have "risks_on (ComponentRef a) CAPEC_10 ?res =
      (case result_risk CAPEC_10 s (ComponentRef a) of None \<Rightarrow> [] | Some k \<Rightarrow> [k])"
    using assms(2,1) by (rule risks_on_evaluate) simp
  with assms(4-6)
  have "\<lparr>target = ComponentRef a, threat = CAPEC_10, impact = HIGH, likelihood = VERY_LIKELY\<rparr>
      \<in> set (risks_on (ComponentRef a) CAPEC_10 ?res)"
    by (simp add: result_risk_Process(1) [OF assms(3)])
  then show "\<lparr>target = ComponentRef a, threat = CAPEC_10, impact = HIGH,
      likelihood = VERY_LIKELY\<rparr> \<in> set (findings_for (ComponentRef a) ?res)"
    by (simp add: risks_on_findings_for)
  from evaluate_also_overflow_buffers [OF assms(1-3,6)]
  have "\<lparr>target = ComponentRef a, threat = CAPEC_100, impact = VERY_HIGH,
      likelihood = VERY_LIKELY\<rparr> \<in> set (risks_on (ComponentRef a) CAPEC_100 ?res)"
    by simp
  then show "\<lparr>target = ComponentRef a, threat = CAPEC_100, impact = VERY_HIGH,
      likelihood = VERY_LIKELY\<rparr> \<in> set (findings_for (ComponentRef a) ?res)"
    by (simp add: risks_on_findings_for)
qed

end
